theory Spec2Isabelle
  imports Complex_Main "HOL-Library.List_Lexorder" "HOL-Library.Multiset"
begin

section \<open>Data model of \<open>sklearnext/over_sampling/base.py\<close>\<close>

text \<open>
  The feature matrix \<open>X\<close> is a list of rows, the label vector \<open>y\<close> a list of labels.
  Line 120 stacks \<open>X\<close> and \<open>y\<close> into one numeric frame, so features and labels share one
  numeric type. The values are finite numbers (the base class of the library checks its
  input for NaN and infinity before \<open>_sample\<close> runs); they are modelled by exact rationals,
  so float rounding error is not part of the model. The only NaN the code creates itself,
  the weight of a label that a group does not hold (line 143), is modelled by \<open>None\<close>.

  \<open>ratio_\<close> is a Python dict from label to a number of samples; it is an association
  list in insertion order. The attributes \<open>ratio_\<close> and \<open>n_overasmpled_groups_\<close> are the
  fields \<open>ratio_attr\<close> and \<open>n_overasmpled_groups_attr\<close> (a name cannot end with an
  underscore here). Exceptions are values of type \<open>error\<close>.
\<close>

type_synonym val = rat
type_synonym label = rat
type_synonym row = "val list"
type_synonym ratio = "(label \<times> int) list"

datatype error = ValueError string | IndexError | KeyError | SamplerError string

record sampler =
  ratio_attr :: ratio
  integer_cols :: "int list option"
  categorical_cols :: "int list option"
  imbalance_ratio_threshold :: rat
  k_neighbors :: "int option"
  n_overasmpled_groups_attr :: "nat option"

text \<open>
  The abstract method \<open>_partial_sample(self, X, y)\<close>: a parameter of the model. It reads
  the sampler (in particular \<open>ratio_\<close>) and either raises or returns the resampled numeric
  matrix and labels. The random state that line 93 prepares is read by this method only
  and is part of it here.
\<close>

type_synonym partial_sampler =
  "sampler \<Rightarrow> row list \<Rightarrow> label list \<Rightarrow> error + (row list \<times> label list)"

section \<open>\<open>_generate_classes_stats\<close> (lines 17-28)\<close>

text \<open>\<open>Counter(y)\<close>: every label of \<open>y\<close> with its number of occurrences, in order of first
  appearance; \<open>counter[l]\<close> is 0 for a label that does not occur.\<close>

definition Counter :: "'a list \<Rightarrow> ('a \<times> nat) list" where
  "Counter ys = map (\<lambda>l. (l, count_list ys l)) (rev (remdups (rev ys)))"

definition counter_get :: "('a \<times> nat) list \<Rightarrow> 'a \<Rightarrow> nat" where
  "counter_get c l = (case map_of c l of None \<Rightarrow> 0 | Some n \<Rightarrow> n)"

definition generate_classes_stats ::
  "label list \<Rightarrow> label \<Rightarrow> rat \<Rightarrow> int option \<Rightarrow> bool \<times> (label \<times> rat) list" where
  "generate_classes_stats y majority_label thr k =
    (let counter = Counter y;
         stats = map (\<lambda>(lab, n_samples).
                   (lab, (of_nat (counter_get counter majority_label) / of_nat n_samples, n_samples)))
                   (filter (\<lambda>(lab, n_samples). lab \<noteq> majority_label) counter);
         include_group = list_ex (\<lambda>(lab, (ir, n_samples)).
                   (case k of Some kn \<Rightarrow> ir < thr \<and> int n_samples > kn
                            | None \<Rightarrow> ir < thr)) stats;
         modified_imbalance_ratios = map (\<lambda>(lab, n_samples).
                   (lab, (of_nat (counter_get counter majority_label) + 1) / (of_nat n_samples + 1)))
                   (filter (\<lambda>(lab, n_samples). lab \<noteq> majority_label) counter)
     in (include_group, modified_imbalance_ratios))"

section \<open>Frames, groups and weights (lines 120-146)\<close>

text \<open>\<open>X.shape[1]\<close>: the number of columns.\<close>

definition shape1 :: "row list \<Rightarrow> nat" where
  "shape1 X = (case X of [] \<Rightarrow> 0 | r # _ \<Rightarrow> length r)"

text \<open>\<open>np.column_stack((X, y))\<close>: every row with its label as last column.\<close>

definition column_stack :: "row list \<Rightarrow> label list \<Rightarrow> row list" where
  "column_stack X y = map (\<lambda>(r, l). r @ [l]) (zip X y)"

text \<open>The key of a row: its values in the categorical columns, in the order of
  \<open>categorical_cols\<close>.\<close>

definition key_of :: "int list \<Rightarrow> row \<Rightarrow> val list" where
  "key_of cats r = map (\<lambda>c. r ! nat c) cats"

text \<open>\<open>df.groupby(categorical_cols)\<close>: one group for each distinct key, the keys sorted
  (the default \<open>sort=True\<close>).\<close>

definition group_keys :: "int list \<Rightarrow> row list \<Rightarrow> val list list" where
  "group_keys cats df = sort (remdups (map (key_of cats) df))"

text \<open>\<open>pd.merge(df, keys)\<close>: the inner join on the categorical columns keeps the rows of
  \<open>df\<close> whose key is one of \<open>keys\<close>, in the order of \<open>df\<close>.\<close>

definition merge_keys :: "int list \<Rightarrow> row list \<Rightarrow> val list list \<Rightarrow> row list" where
  "merge_keys cats df keys = filter (\<lambda>r. key_of cats r \<in> set keys) df"

text \<open>Lines 125-134: the statistics of every group, computed from the label column.\<close>

definition classes_stats ::
  "sampler \<Rightarrow> int list \<Rightarrow> label \<Rightarrow> row list \<Rightarrow> (val list \<times> bool \<times> (label \<times> rat) list) list" where
  "classes_stats s cats majority_label df =
     map (\<lambda>k. (k, generate_classes_stats (map last (merge_keys cats df [k])) majority_label
                     (imbalance_ratio_threshold s) (k_neighbors s)))
         (group_keys cats df)"

definition included_groups :: "(val list \<times> bool \<times> (label \<times> rat) list) list \<Rightarrow> val list list" where
  "included_groups cs = map fst (filter (\<lambda>(k, inc, mir). inc) cs)"

definition excluded_groups :: "(val list \<times> bool \<times> (label \<times> rat) list) list \<Rightarrow> val list list" where
  "excluded_groups cs = map fst (filter (\<lambda>(k, inc, mir). \<not> inc) cs)"

definition imbalance_ratios ::
  "(val list \<times> bool \<times> (label \<times> rat) list) list \<Rightarrow> (label \<times> rat) list list" where
  "imbalance_ratios cs = map (\<lambda>(k, inc, mir). mir) (filter (\<lambda>(k, inc, mir). inc) cs)"

text \<open>Lines 142-146. \<open>ratio.get(label, np.nan)\<close> is \<open>None\<close> for a group without the label;
  the sum of a pandas series skips NaN; NaN divided by anything is NaN.\<close>

definition nansum :: "rat option list \<Rightarrow> rat" where
  "nansum ws = sum_list (map (\<lambda>w. case w of None \<Rightarrow> 0 | Some v \<Rightarrow> v) ws)"

definition label_weights :: "(label \<times> rat) list list \<Rightarrow> label \<Rightarrow> rat option list" where
  "label_weights irs lab =
     (let col = map (\<lambda>ratio. map_of ratio lab) irs
      in map (map_option (\<lambda>v. v / nansum col)) col)"

text \<open>The rows of the frame \<open>weights\<close>: one row for each included group, one column for
  each minority label. Without minority labels the frame stays empty and has no rows.\<close>

definition weights :: "(label \<times> rat) list list \<Rightarrow> label list \<Rightarrow> (label \<times> rat option) list list" where
  "weights irs minority_labels =
     (if minority_labels = [] then []
      else map (\<lambda>i. map (\<lambda>lab. (lab, label_weights irs lab ! i)) minority_labels)
               [0..<length irs])"

section \<open>The resampling loop (lines 148-182)\<close>

text \<open>Python's \<open>int(x)\<close> on a float truncates towards zero.\<close>

definition py_int :: "rat \<Rightarrow> int" where
  "py_int q = (if 0 \<le> q then \<lfloor>q\<rfloor> else \<lceil>q\<rceil>)"

text \<open>Lines 157-158: the ratio of one group, built from the items of \<open>initial_ratio\<close> and
  the group's row \<open>weight\<close>. \<open>int\<close> of a NaN product raises \<open>ValueError\<close>; a label
  without a column in \<open>weight\<close> would raise \<open>KeyError\<close>.\<close>

fun ratio_in_group ::
  "label \<Rightarrow> (label \<times> rat option) list \<Rightarrow> ratio \<Rightarrow> error + ratio" where
  "ratio_in_group majority_label weight [] = Inr []"
| "ratio_in_group majority_label weight ((lab, n_samples) # rest) =
     (if lab \<noteq> majority_label then
        (case map_of weight lab of
           None \<Rightarrow> Inl KeyError
         | Some None \<Rightarrow> Inl (ValueError ''cannot convert float NaN to integer'')
         | Some (Some w) \<Rightarrow>
             (case ratio_in_group majority_label weight rest of
                Inl e \<Rightarrow> Inl e
              | Inr d \<Rightarrow> Inr ((lab, py_int (of_int n_samples * w)) # d)))
      else
        (case ratio_in_group majority_label weight rest of
           Inl e \<Rightarrow> Inl e
         | Inr d \<Rightarrow> Inr ((lab, n_samples) # d)))"

text \<open>\<open>.drop(columns=categorical_cols)\<close>: the other columns, in their order.\<close>

definition drop_columns :: "int list \<Rightarrow> row \<Rightarrow> row" where
  "drop_columns cats r = map (\<lambda>j. r ! j) (filter (\<lambda>j. int j \<notin> set cats) [0..<length r])"

text \<open>Lines 166-168 and 172: the group's categorical values are put beside every
  resampled numeric row, and the columns are brought back into the order \<open>0..m-1\<close> of the
  input. Column \<open>j\<close> is the group value when \<open>j\<close> is categorical, and otherwise the numeric
  column with as many non-categorical columns before it. The reshape of line 166 fails
  on zero rows, and the frame of line 168 on rows of another width.\<close>

definition attach_row :: "nat \<Rightarrow> int list \<Rightarrow> val list \<Rightarrow> row \<Rightarrow> row" where
  "attach_row m cats group_values num =
     map (\<lambda>j. case map_of (zip cats group_values) (int j) of
                 Some v \<Rightarrow> v
               | None \<Rightarrow> num ! length (filter (\<lambda>i. int i \<notin> set cats) [0..<j]))
         [0..<m]"

definition attach_categorical ::
  "nat \<Rightarrow> int list \<Rightarrow> val list \<Rightarrow> row list \<Rightarrow> error + row list" where
  "attach_categorical m cats group_values X_group_resampled =
     (if X_group_resampled = [] then Inl (ValueError ''cannot reshape array of size 0'')
      else if list_ex (\<lambda>r. length r \<noteq> length (filter (\<lambda>i. int i \<notin> set cats) [0..<m]))
                X_group_resampled
      then Inl (ValueError ''Shape of passed values does not match the columns'')
      else Inr (map (attach_row m cats group_values) X_group_resampled))"

text \<open>Lines 154-173: the loop over the included groups and their weights. The sampler
  is the state: \<open>ratio_\<close> is overwritten for every group, and an exception leaves the
  loop with the sampler as it is at that moment.\<close>

fun oversample_groups ::
  "partial_sampler \<Rightarrow> row list \<Rightarrow> nat \<Rightarrow> int list \<Rightarrow> label \<Rightarrow> ratio \<Rightarrow>
   (val list \<times> (label \<times> rat option) list) list \<Rightarrow> sampler \<Rightarrow> row list \<Rightarrow> label list \<Rightarrow>
   (error + (row list \<times> label list)) \<times> sampler" where
  "oversample_groups partial_sample df m cats majority_label initial_ratio [] s X_resampled y_resampled =
     (Inr (X_resampled, y_resampled), s)"
| "oversample_groups partial_sample df m cats majority_label initial_ratio
       ((group_values, weight) # rest) s X_resampled y_resampled =
     (case ratio_in_group majority_label weight initial_ratio of
        Inl e \<Rightarrow> (Inl e, s)
      | Inr r \<Rightarrow>
          (let s' = s\<lparr>ratio_attr := r\<rparr>;
               df_group = map (drop_columns cats) (merge_keys cats df [group_values]);
               X_group = map butlast df_group;
               y_group = map last df_group
           in case partial_sample s' X_group y_group of
                Inl e \<Rightarrow> (Inl e, s')
              | Inr (X_group_resampled, y_group_resampled) \<Rightarrow>
                  (case attach_categorical m cats group_values X_group_resampled of
                     Inl e \<Rightarrow> (Inl e, s')
                   | Inr X_group_attached \<Rightarrow>
                       oversample_groups partial_sample df m cats majority_label initial_ratio rest s'
                         (X_resampled @ X_group_attached) (y_resampled @ y_group_resampled))))"

section \<open>\<open>_sample\<close> (lines 73-187)\<close>

text \<open>Line 185, \<open>np.round(...).astype(int)\<close> written back into the float matrix.
  \<open>np.round\<close> gives the nearest whole number as a float, a tie going to the even one.
  \<open>.astype(int)\<close> casts that float to a 64-bit signed integer: a value in the range from
  \<open>-2^63\<close> up to, not including, \<open>2^63\<close> keeps its integer part, and any value outside of
  it comes out as the smallest 64-bit integer \<open>-2^63\<close> (the result the float-to-integer
  conversion of the processor leaves). The assignment into the matrix makes the integer a
  float again.\<close>

definition np_round :: "rat \<Rightarrow> rat" where
  "np_round q =
     (let f = \<lfloor>q\<rfloor>; d = q - of_int f
      in of_int (if d < 1 / 2 then f else if 1 / 2 < d then f + 1
                 else if even f then f else f + 1))"

definition astype_int :: "rat \<Rightarrow> int" where
  "astype_int v =
     (let n = (if 0 \<le> v then \<lfloor>v\<rfloor> else \<lceil>v\<rceil>)
      in if - (2 ^ 63) \<le> n \<and> n < 2 ^ 63 then n else - (2 ^ 63))"

definition round_integer_cols :: "int list \<Rightarrow> row \<Rightarrow> row" where
  "round_integer_cols ics r =
     map (\<lambda>j. if int j \<in> set ics then of_int (astype_int (np_round (r ! j))) else r ! j)
         [0..<length r]"

text \<open>The checks of lines 101 and 108: \<open>len\<close> of \<open>None\<close> raises inside the \<open>try\<close>, an
  empty list and an index outside \<open>range(max_col_index)\<close> raise there too, and the bare
  \<open>except\<close> turns each of them into the \<open>ValueError\<close> of lines 105 and 112.\<close>

definition cols_invalid :: "nat \<Rightarrow> int list option \<Rightarrow> bool" where
  "cols_invalid max_col_index cols =
     (case cols of None \<Rightarrow> True
      | Some cs \<Rightarrow> length cs = 0 \<or> \<not> list_all (\<lambda>c. 0 \<le> c \<and> c < int max_col_index) cs)"

text \<open>Lines 120-182 with valid parameters: the result before the integer columns are
  rounded, and the sampler after it.\<close>

definition resample_groups ::
  "partial_sampler \<Rightarrow> sampler \<Rightarrow> int list \<Rightarrow> row list \<Rightarrow> label list \<Rightarrow>
   (error + (row list \<times> label list)) \<times> sampler" where
  "resample_groups partial_sample s cats X y =
     (if length X \<noteq> length y
      then (Inl (ValueError ''all the input array dimensions must match exactly''), s)
      else
       (let df = column_stack X y in
        case map fst (filter (\<lambda>(lab, n_samples). n_samples = 0) (ratio_attr s)) of
          [] \<Rightarrow> (Inl IndexError, s)
        | majority_label # _ \<Rightarrow>
           (let minority_labels = filter (\<lambda>lab. lab \<noteq> majority_label) (map fst (ratio_attr s));
                cs = classes_stats s cats majority_label df;
                s1 = s\<lparr>n_overasmpled_groups_attr := Some (length (included_groups cs))\<rparr>;
                ws = weights (imbalance_ratios cs) minority_labels;
                initial_ratio = ratio_attr s1
            in case oversample_groups partial_sample df (shape1 X) cats majority_label initial_ratio
                      (zip (included_groups cs) ws) s1 [] [] of
                 (Inl e, s2) \<Rightarrow> (Inl e, s2)
               | (Inr (X_resampled, y_resampled), s2) \<Rightarrow>
                   (let s3 = s2\<lparr>ratio_attr := initial_ratio\<rparr>;
                        df_excluded = merge_keys cats df (excluded_groups cs)
                    in (Inr (X_resampled @ map butlast df_excluded,
                             y_resampled @ map last df_excluded), s3)))))"

text \<open>The whole method. The messages of lines 105 and 112 are given without the
  formatted range.\<close>

definition sample ::
  "partial_sampler \<Rightarrow> sampler \<Rightarrow> row list \<Rightarrow> label list \<Rightarrow>
   (error + (row list \<times> label list)) \<times> sampler" where
  "sample partial_sample s X y =
     (case categorical_cols s of
        None \<Rightarrow> (partial_sample s X y, s)
      | Some cats \<Rightarrow>
         (let max_col_index = shape1 X in
          if cols_invalid max_col_index (integer_cols s)
          then (Inl (ValueError ''Parameter integer_cols should be a list or tuple in the range.''), s)
          else if cols_invalid max_col_index (Some cats)
          then (Inl (ValueError ''Parameter categorical_cols should be a list or tuple in the range.''), s)
          else if list_ex (\<lambda>c. c \<in> set cats) (the (integer_cols s))
          then (Inl (ValueError ''Parameters integer_cols and categorical_cols should not have common elements.''), s)
          else if imbalance_ratio_threshold s \<le> 0
          then (Inl (ValueError ''Parameter categorical_threshold should be a positive number.''), s)
          else
            (case resample_groups partial_sample s cats X y of
               (Inl e, s') \<Rightarrow> (Inl e, s')
             | (Inr (X_resampled, y_resampled), s') \<Rightarrow>
                 (Inr (map (round_integer_cols (the (integer_cols s))) X_resampled, y_resampled), s'))))"

section \<open>Concrete inputs\<close>

text \<open>A dataset with one integer column (0) and one categorical column (1). The groups
  with the categorical values 0 and 2 hold more rows of label 1 than of the majority
  label 0 and are oversampled; the group with the value 1 holds the majority label only
  and is excluded. One of its rows has the value 5/2 in the integer column.\<close>

definition example_X :: "row list" where
  "example_X = [[1, 0], [2, 0], [3, 0], [5 / 2, 1], [4, 1], [6, 1], [7, 2], [8, 2], [9, 2], [10, 2]]"

definition example_y :: "label list" where
  "example_y = [0, 1, 1, 0, 0, 0, 0, 1, 1, 1]"

definition example_sampler :: sampler where
  "example_sampler =
     \<lparr>ratio_attr = [(0, 0), (1, 7)], integer_cols = Some [0], categorical_cols = Some [1],
      imbalance_ratio_threshold = 1, k_neighbors = None, n_overasmpled_groups_attr = None\<rparr>"

text \<open>Two partial samplers: one returns its input as it is, one always raises.\<close>

definition identity_sampler :: partial_sampler where
  "identity_sampler s X y = Inr (X, y)"

definition failing_sampler :: partial_sampler where
  "failing_sampler s X y = Inl (SamplerError ''not enough neighbors'')"

text \<open>A dataset with three labels: the oversampled group (categorical value 0) holds the
  labels 0 and 1 and no row of label 2.\<close>

definition three_class_X :: "row list" where
  "three_class_X = [[1, 0], [2, 0], [3, 0], [4, 1], [5, 1], [6, 1], [7, 1]]"

definition three_class_y :: "label list" where
  "three_class_y = [0, 1, 1, 0, 0, 0, 2]"

definition three_class_sampler :: sampler where
  "three_class_sampler =
     \<lparr>ratio_attr = [(0, 0), (1, 2), (2, 3)], integer_cols = Some [0], categorical_cols = Some [1],
      imbalance_ratio_threshold = 1, k_neighbors = None, n_overasmpled_groups_attr = None\<rparr>"


text \<open>A dataset with two categorical columns (1 and 2). Rows 0, 2 and 4 have the values
  0, 0 there, row 1 has 0, 1 and row 3 has 1, 1: rows 0 and 1 agree in column 1 and differ
  in column 2.\<close>

definition two_column_X :: "row list" where
  "two_column_X = [[1, 0, 0], [2, 0, 1], [3, 0, 0], [4, 1, 1], [5, 0, 0]]"

definition two_column_y :: "label list" where
  "two_column_y = [0, 1, 1, 0, 1]"

section \<open>Properties of \<open>Counter\<close> and of the group statistics\<close>

lemma map_of_Counter:
  "map_of (Counter ys) l = (if l \<in> set ys then Some (count_list ys l) else None)"
  unfolding Counter_def by (simp add: map_of_map_restrict restrict_map_def)

lemma counter_get_Counter: "counter_get (Counter ys) l = count_list ys l"
  by (simp add: counter_get_def map_of_Counter)

lemma set_Counter: "set (Counter ys) = (\<lambda>l. (l, count_list ys l)) ` set ys"
  unfolding Counter_def by simp

lemma distinct_Counter: "distinct (map fst (Counter ys))"
  unfolding Counter_def by (simp add: comp_def)

text \<open>
  Claim C4. A group is included if and only if at least one label of the group other than
  the majority label has an imbalance ratio (majority count divided by the label's count)
  below the threshold and, when a neighbor count is given, more rows than that count.
  Without a neighbor count the ratio alone decides.
\<close>

theorem include_group_iff_any:
  "fst (generate_classes_stats y majority_label thr k) \<longleftrightarrow>
     (\<exists>lab \<in> set y. lab \<noteq> majority_label \<and>
        of_nat (count_list y majority_label) / of_nat (count_list y lab) < thr \<and>
        (case k of None \<Rightarrow> True | Some kn \<Rightarrow> kn < int (count_list y lab)))"
  unfolding generate_classes_stats_def Let_def
  by (cases k) (auto simp: list_ex_iff set_Counter counter_get_Counter)

text \<open>With the labels 0, 0, 1, 1, 1, 2 and majority label 0, label 1 alone is imbalanced
  enough (2/3 < 1, while label 2 has ratio 2): the group is included. With a neighbor
  count of 3 no label has more than 3 rows and the group is left out.\<close>

theorem include_group_iff_any_witness:
  "fst (generate_classes_stats [0, 0, 1, 1, 1, 2] 0 1 None) \<and>
   \<not> fst (generate_classes_stats [0, 0, 1, 1, 1, 2] 0 1 (Some 3))"
  using include_group_iff_any [of "[0, 0, 1, 1, 1, 2]" 0 1 None]
        include_group_iff_any [of "[0, 0, 1, 1, 1, 2]" 0 1 "Some 3"]
  by simp

section \<open>Without categorical columns\<close>

text \<open>
  Claim C3. When \<open>categorical_cols\<close> is \<open>None\<close>, \<open>_sample(X, y)\<close> returns what
  \<open>_partial_sample(X, y)\<close> returns on the whole dataset (a result or an exception), and the
  sampler is left as it is.
\<close>

theorem sample_without_categorical_cols:
  "categorical_cols s = None \<Longrightarrow> sample partial_sample s X y = (partial_sample s X y, s)"
  by (simp add: sample_def)

theorem sample_without_categorical_cols_witness:
  "categorical_cols (example_sampler\<lparr>categorical_cols := None\<rparr>) = None \<and>
   sample failing_sampler (example_sampler\<lparr>categorical_cols := None\<rparr>) example_X example_y =
     (Inl (SamplerError ''not enough neighbors''), example_sampler\<lparr>categorical_cols := None\<rparr>) \<and>
   sample identity_sampler (example_sampler\<lparr>categorical_cols := None\<rparr>) example_X example_y =
     (Inr (example_X, example_y), example_sampler\<lparr>categorical_cols := None\<rparr>)"
proof -
  have h: "categorical_cols (example_sampler\<lparr>categorical_cols := None\<rparr>) = None"
    by simp
  show ?thesis
    using h sample_without_categorical_cols [OF h, of failing_sampler example_X example_y]
      sample_without_categorical_cols [OF h, of identity_sampler example_X example_y]
    by (simp add: failing_sampler_def identity_sampler_def)
qed

text \<open>
  Claim C10. When \<open>categorical_cols\<close> is \<open>None\<close>, no parameter is checked: whatever
  \<open>integer_cols\<close> and \<open>imbalance_ratio_threshold\<close> are, the call is the call of
  \<open>_partial_sample\<close>, so \<open>_sample\<close> raises nothing of its own.
\<close>

theorem no_validation_without_categorical_cols:
  "sample partial_sample
     (s\<lparr>categorical_cols := None, integer_cols := ics, imbalance_ratio_threshold := thr\<rparr>) X y =
   (partial_sample
      (s\<lparr>categorical_cols := None, integer_cols := ics, imbalance_ratio_threshold := thr\<rparr>) X y,
    s\<lparr>categorical_cols := None, integer_cols := ics, imbalance_ratio_threshold := thr\<rparr>)"
  by (simp add: sample_def)

text \<open>An empty list of integer columns with a negative threshold, no integer columns
  with threshold 0, and integer columns out of range: the identity sampler's result comes
  back each time.\<close>

theorem no_validation_without_categorical_cols_witness:
  "fst (sample identity_sampler
     (example_sampler\<lparr>categorical_cols := None, integer_cols := Some [], imbalance_ratio_threshold := - 1\<rparr>)
     example_X example_y) = Inr (example_X, example_y) \<and>
   fst (sample identity_sampler
     (example_sampler\<lparr>categorical_cols := None, integer_cols := None, imbalance_ratio_threshold := 0\<rparr>)
     example_X example_y) = Inr (example_X, example_y) \<and>
   fst (sample identity_sampler
     (example_sampler\<lparr>categorical_cols := None, integer_cols := Some [7, - 2], imbalance_ratio_threshold := 1\<rparr>)
     example_X example_y) = Inr (example_X, example_y)"
  using no_validation_without_categorical_cols
      [where partial_sample = identity_sampler and s = example_sampler and ics = "Some []"
         and thr = "- 1" and X = example_X and y = example_y]
    no_validation_without_categorical_cols
      [where partial_sample = identity_sampler and s = example_sampler and ics = None
         and thr = 0 and X = example_X and y = example_y]
    no_validation_without_categorical_cols
      [where partial_sample = identity_sampler and s = example_sampler and ics = "Some [7, - 2]"
         and thr = 1 and X = example_X and y = example_y]
  by (simp add: identity_sampler_def)

section \<open>Validation of the parameters\<close>

text \<open>
  Claim C9. With \<open>categorical_cols\<close> set, a call whose \<open>integer_cols\<close> share a column with
  \<open>categorical_cols\<close>, or whose \<open>imbalance_ratio_threshold\<close> is not positive, raises
  \<open>ValueError\<close>. It does so before any resampling: the result is the same for every
  partial sampler, which is never called, and the sampler is unchanged.
\<close>

theorem validation_raises_eagerly:
  assumes "categorical_cols s = Some cats"
    and "(\<exists>ics. integer_cols s = Some ics \<and> set ics \<inter> set cats \<noteq> {}) \<or>
         imbalance_ratio_threshold s \<le> 0"
  shows "\<exists>msg. \<forall>partial_sample. sample partial_sample s X y = (Inl (ValueError msg), s)"
proof (cases "cols_invalid (shape1 X) (integer_cols s)")
  case True
  with assms(1) show ?thesis by (simp add: sample_def)
next
  case ic: False
  show ?thesis
  proof (cases "cols_invalid (shape1 X) (Some cats)")
    case True
    with ic assms(1) show ?thesis by (simp add: sample_def)
  next
    case cc: False
    show ?thesis
    proof (cases "list_ex (\<lambda>c. c \<in> set cats) (the (integer_cols s))")
      case True
      with ic cc assms(1) show ?thesis by (simp add: sample_def)
    next
      case False
      with assms(2) have "imbalance_ratio_threshold s \<le> 0"
        by (auto simp: list_ex_iff)
      with ic cc False assms(1) show ?thesis by (simp add: sample_def)
    qed
  qed
qed

text \<open>Integer columns 0 and 1 with categorical column 1, and a threshold of 0.\<close>

theorem validation_raises_eagerly_witness:
  "(\<forall>partial_sample.
      sample partial_sample (example_sampler\<lparr>integer_cols := Some [0, 1]\<rparr>) example_X example_y =
        (Inl (ValueError ''Parameters integer_cols and categorical_cols should not have common elements.''),
         example_sampler\<lparr>integer_cols := Some [0, 1]\<rparr>)) \<and>
   (\<forall>partial_sample.
      sample partial_sample (example_sampler\<lparr>imbalance_ratio_threshold := 0\<rparr>) example_X example_y =
        (Inl (ValueError ''Parameter categorical_threshold should be a positive number.''),
         example_sampler\<lparr>imbalance_ratio_threshold := 0\<rparr>))"
proof -
  have c1: "categorical_cols (example_sampler\<lparr>integer_cols := Some [0, 1]\<rparr>) = Some [1]"
    by (simp add: example_sampler_def)
  have o1: "(\<exists>ics. integer_cols (example_sampler\<lparr>integer_cols := Some [0, 1]\<rparr>) = Some ics \<and>
              set ics \<inter> set [1] \<noteq> {}) \<or>
            imbalance_ratio_threshold (example_sampler\<lparr>integer_cols := Some [0, 1]\<rparr>) \<le> 0"
    by simp
  have c2: "categorical_cols (example_sampler\<lparr>imbalance_ratio_threshold := 0\<rparr>) = Some [1]"
    by (simp add: example_sampler_def)
  have o2: "(\<exists>ics. integer_cols (example_sampler\<lparr>imbalance_ratio_threshold := 0\<rparr>) = Some ics \<and>
              set ics \<inter> set [1] \<noteq> {}) \<or>
            imbalance_ratio_threshold (example_sampler\<lparr>imbalance_ratio_threshold := 0\<rparr>) \<le> 0"
    by simp
  from validation_raises_eagerly [OF c1 o1, of example_X example_y]
  obtain m1 where m1: "\<forall>partial_sample.
      sample partial_sample (example_sampler\<lparr>integer_cols := Some [0, 1]\<rparr>) example_X example_y =
        (Inl (ValueError m1), example_sampler\<lparr>integer_cols := Some [0, 1]\<rparr>)" by blast
  have e1: "fst (sample identity_sampler (example_sampler\<lparr>integer_cols := Some [0, 1]\<rparr>)
                  example_X example_y) =
     Inl (ValueError ''Parameters integer_cols and categorical_cols should not have common elements.'')"
    by code_simp
  from validation_raises_eagerly [OF c2 o2, of example_X example_y]
  obtain m2 where m2: "\<forall>partial_sample.
      sample partial_sample (example_sampler\<lparr>imbalance_ratio_threshold := 0\<rparr>) example_X example_y =
        (Inl (ValueError m2), example_sampler\<lparr>imbalance_ratio_threshold := 0\<rparr>)" by blast
  have e2: "fst (sample identity_sampler (example_sampler\<lparr>imbalance_ratio_threshold := 0\<rparr>)
                  example_X example_y) =
     Inl (ValueError ''Parameter categorical_threshold should be a positive number.'')"
    by code_simp
  from m1 e1 have "m1 = ''Parameters integer_cols and categorical_cols should not have common elements.''"
    by simp
  moreover from m2 e2 have "m2 = ''Parameter categorical_threshold should be a positive number.''"
    by simp
  ultimately show ?thesis using m1 m2 by simp
qed

section \<open>The ratio of a group (lines 156-158)\<close>

lemma py_int_floor: "0 \<le> q \<Longrightarrow> py_int q = \<lfloor>q\<rfloor>"
  by (simp add: py_int_def)

text \<open>When every label of \<open>initial_ratio\<close> other than the majority label has a weight that
  is a number, the ratio of the group keeps the majority label's entry and gives every
  other label its entry times the weight, truncated (the floor, as the product is not
  negative for a count and a weight).\<close>

lemma ratio_in_group_defined:
  assumes "\<forall>(lab, n) \<in> set init. lab \<noteq> maj \<longrightarrow> (\<exists>w. map_of weight lab = Some (Some w))"
  shows "ratio_in_group maj weight init =
     Inr (map (\<lambda>(lab, n). (lab, if lab \<noteq> maj
                 then py_int (of_int n * the (the (map_of weight lab))) else n)) init)"
  using assms by (induction init) auto

text \<open>When one of these labels has the weight NaN, building the ratio raises.\<close>

lemma ratio_in_group_nan:
  assumes "(lab, n) \<in> set init" "lab \<noteq> maj" "map_of weight lab = Some None"
  shows "\<exists>e. ratio_in_group maj weight init = Inl e"
  using assms by (induction init) (auto split: option.splits sum.splits)

text \<open>
  Claim C2, at the three-class dataset. The only included group holds no row of label 2,
  so its weight for label 2 is NaN (\<open>None\<close>), while its weight for label 1 is 1. The claim
  says that the group's target for label 2 is then left at the current count and that no
  error occurs. The code evaluates \<open>int(3 * nan)\<close> at line 157 and \<open>_sample\<close> raises
  \<open>ValueError\<close> before the partial sampler is called for the group.
\<close>

theorem missing_label_raises:
  "weights (imbalance_ratios (classes_stats three_class_sampler [1] 0
       (column_stack three_class_X three_class_y))) [1, 2] = [[(1, Some 1), (2, None)]] \<and>
   sample identity_sampler three_class_sampler three_class_X three_class_y =
     (Inl (ValueError ''cannot convert float NaN to integer''),
      three_class_sampler\<lparr>n_overasmpled_groups_attr := Some 1\<rparr>)"
  by code_simp

section \<open>The shape of a successful call\<close>

lemma resample_groups_success:
  assumes "resample_groups ps s cats X y = (Inr (Xp, yp), s')"
  shows "length X = length y \<and>
    (\<exists>maj rest Xi yi s2.
       map fst (filter (\<lambda>(lab, n_samples). n_samples = 0) (ratio_attr s)) = maj # rest \<and>
       oversample_groups ps (column_stack X y) (shape1 X) cats maj (ratio_attr s)
         (zip (included_groups (classes_stats s cats maj (column_stack X y)))
              (weights (imbalance_ratios (classes_stats s cats maj (column_stack X y)))
                 (filter (\<lambda>lab. lab \<noteq> maj) (map fst (ratio_attr s)))))
         (s\<lparr>n_overasmpled_groups_attr :=
              Some (length (included_groups (classes_stats s cats maj (column_stack X y))))\<rparr>) [] []
         = (Inr (Xi, yi), s2) \<and>
       Xp = Xi @ map butlast (merge_keys cats (column_stack X y)
                 (excluded_groups (classes_stats s cats maj (column_stack X y)))) \<and>
       yp = yi @ map last (merge_keys cats (column_stack X y)
                 (excluded_groups (classes_stats s cats maj (column_stack X y)))) \<and>
       s' = s2\<lparr>ratio_attr := ratio_attr s\<rparr>)"
  using assms unfolding resample_groups_def Let_def
  by (auto split: if_splits list.splits prod.splits sum.splits)

lemma sample_success:
  assumes "sample ps s X y = (Inr (Xr, yr), s')" "categorical_cols s = Some cats"
  shows "\<exists>ics Xp. integer_cols s = Some ics \<and>
           resample_groups ps s cats X y = (Inr (Xp, yr), s') \<and>
           Xr = map (round_integer_cols ics) Xp"
  using assms unfolding sample_def Let_def
  by (auto split: if_splits prod.splits sum.splits simp: cols_invalid_def split: option.splits)

section \<open>Restoring \<open>ratio_\<close> (lines 148 and 176)\<close>

text \<open>A call that returns leaves \<open>ratio_\<close> as it was: line 176 puts the copy of line 148
  back.\<close>

lemma sample_success_restores_ratio:
  assumes "sample ps s X y = (Inr res, s')"
  shows "ratio_attr s' = ratio_attr s"
proof (cases "categorical_cols s")
  case None
  with assms show ?thesis by (simp add: sample_def)
next
  case (Some cats)
  obtain Xr yr where res: "res = (Xr, yr)" by (cases res)
  from sample_success [OF assms [unfolded res] Some] obtain ics Xp where
    "resample_groups ps s cats X y = (Inr (Xp, yr), s')" by blast
  from resample_groups_success [OF this] show ?thesis by auto
qed

text \<open>
  Claim C1, at the example dataset with a partial sampler that raises. The claim says that
  \<open>ratio_\<close> after the call is what it was before, also when \<open>_partial_sample\<close> raises for
  a group. Line 157 has overwritten \<open>ratio_\<close> with the ratio of the first group (4 samples
  of label 1 instead of 7) when the exception leaves the loop, and nothing catches it:
  line 176 is not reached and the sampler keeps the group's ratio.
\<close>

theorem ratio_not_restored_after_failure:
  "sample failing_sampler example_sampler example_X example_y =
     (Inl (SamplerError ''not enough neighbors''),
      example_sampler\<lparr>ratio_attr := [(0, 0), (1, 4)], n_overasmpled_groups_attr := Some 2\<rparr>) \<and>
   ratio_attr example_sampler = [(0, 0), (1, 7)]"
  by code_simp

section \<open>Rounding the integer columns (line 185)\<close>


















section \<open>The rows of the excluded groups (lines 179-185)\<close>




section \<open>The partition into groups (lines 125-137, 161 and 179-180)\<close>

lemma mset_filter_split:
  "\<forall>r \<in> set df. \<not> (P r \<and> Q r) \<Longrightarrow>
     mset (filter P df) + mset (filter Q df) = mset (filter (\<lambda>r. P r \<or> Q r) df)"
  by (induction df) auto

lemma set_merge_keys: "set (merge_keys cats df ks) = {r \<in> set df. key_of cats r \<in> set ks}"
  by (simp add: merge_keys_def)

lemma merge_keys_Cons:
  assumes "k \<notin> set ks"
  shows "mset (merge_keys cats df [k]) + mset (merge_keys cats df ks) = mset (merge_keys cats df (k # ks))"
proof -
  have "mset (filter (\<lambda>r. key_of cats r \<in> set [k]) df) + mset (filter (\<lambda>r. key_of cats r \<in> set ks) df)
      = mset (filter (\<lambda>r. key_of cats r \<in> set [k] \<or> key_of cats r \<in> set ks) df)"
    by (rule mset_filter_split) (use assms in auto)
  then show ?thesis by (simp add: merge_keys_def)
qed

lemma mset_groups:
  "distinct ks \<Longrightarrow>
     mset (concat (map (\<lambda>k. merge_keys cats df [k]) ks)) = mset (merge_keys cats df ks)"
proof (induction ks)
  case Nil
  show ?case by (simp add: merge_keys_def)
next
  case (Cons k ks)
  then show ?case by (simp add: merge_keys_Cons)
qed

lemma set_group_keys: "set (group_keys cats df) = key_of cats ` set df"
  by (simp add: group_keys_def)

lemma distinct_group_keys: "distinct (group_keys cats df)"
  by (simp add: group_keys_def)

lemma merge_keys_all: "key_of cats ` set df \<subseteq> set ks \<Longrightarrow> merge_keys cats df ks = df"
  unfolding merge_keys_def by (rule filter_True) auto

lemma keys_classes_stats: "map fst (classes_stats s cats maj df) = group_keys cats df"
  by (simp add: classes_stats_def comp_def)

lemma included_groups_filter:
  "included_groups (classes_stats s cats maj df) =
     filter (\<lambda>k. fst (generate_classes_stats (map last (merge_keys cats df [k])) maj
                        (imbalance_ratio_threshold s) (k_neighbors s)))
            (group_keys cats df)"
  by (simp add: included_groups_def classes_stats_def filter_map comp_def case_prod_beta)

lemma excluded_groups_filter:
  "excluded_groups (classes_stats s cats maj df) =
     filter (\<lambda>k. \<not> fst (generate_classes_stats (map last (merge_keys cats df [k])) maj
                        (imbalance_ratio_threshold s) (k_neighbors s)))
            (group_keys cats df)"
  by (simp add: excluded_groups_def classes_stats_def filter_map comp_def case_prod_beta)

lemma included_excluded_disjoint:
  "set (included_groups (classes_stats s cats maj df)) \<inter>
   set (excluded_groups (classes_stats s cats maj df)) = {}"
  by (auto simp: included_groups_filter excluded_groups_filter)

lemma included_excluded_cover:
  "set (included_groups (classes_stats s cats maj df)) \<union>
   set (excluded_groups (classes_stats s cats maj df)) = set (group_keys cats df)"
  by (auto simp: included_groups_filter excluded_groups_filter)

lemma distinct_included_groups: "distinct (included_groups (classes_stats s cats maj df))"
  by (simp add: included_groups_filter distinct_group_keys)

lemma key_of_eq_iff:
  "key_of cats r = k \<longleftrightarrow>
     length k = length cats \<and> (\<forall>j < length cats. r ! nat (cats ! j) = k ! j)"
  by (auto simp: key_of_def list_eq_iff_nth_eq)

lemma same_key_iff:
  "key_of cats r = key_of cats r' \<longleftrightarrow> (\<forall>c \<in> set cats. r ! nat c = r' ! nat c)"
  by (simp add: key_of_def)

lemma same_group_iff:
  assumes "r \<in> set df" "r' \<in> set df"
  shows "(\<exists>k. r \<in> set (merge_keys cats df [k]) \<and> r' \<in> set (merge_keys cats df [k])) \<longleftrightarrow>
         (\<forall>c \<in> set cats. r ! nat c = r' ! nat c)"
  using assms by (auto simp: set_merge_keys same_key_iff [symmetric])

text \<open>
  Claim C6. The groups partition the frame by the values in all categorical columns. The
  keys of the groups are distinct, and each of them has one value for every categorical
  column and at least one row. A row belongs to the group of a key exactly when, for
  every categorical column, its value in that column is the key's value for it; so two
  rows are in one group exactly when they agree in every categorical column. Every row
  belongs to exactly one group, and the groups together hold every row as often as the
  frame does (none dropped, none duplicated). Every group is either included or excluded,
  so the rows the loop selects (line 161) and the excluded rows (line 180) together are
  the rows of the frame. This holds for all values in the categorical columns.
\<close>

theorem partition_total_disjoint:
  assumes "cs = classes_stats s cats maj df"
  shows "distinct (map fst cs) \<and>
    (\<forall>k r. r \<in> set (merge_keys cats df [k]) \<longleftrightarrow>
       r \<in> set df \<and> length k = length cats \<and> (\<forall>j < length cats. r ! nat (cats ! j) = k ! j)) \<and>
    (\<forall>r \<in> set df. \<forall>r' \<in> set df.
       (\<exists>k. r \<in> set (merge_keys cats df [k]) \<and> r' \<in> set (merge_keys cats df [k])) \<longleftrightarrow>
       (\<forall>c \<in> set cats. r ! nat c = r' ! nat c)) \<and>
    (\<forall>k \<in> set (map fst cs). length k = length cats \<and> merge_keys cats df [k] \<noteq> []) \<and>
    (\<forall>r \<in> set df. \<exists>!k. k \<in> set (map fst cs) \<and> r \<in> set (merge_keys cats df [k])) \<and>
    mset (concat (map (\<lambda>k. merge_keys cats df [k]) (map fst cs))) = mset df \<and>
    set (included_groups cs) \<inter> set (excluded_groups cs) = {} \<and>
    set (included_groups cs) \<union> set (excluded_groups cs) = set (map fst cs) \<and>
    mset (concat (map (\<lambda>k. merge_keys cats df [k]) (included_groups cs))) +
      mset (merge_keys cats df (excluded_groups cs)) = mset df"
proof -
  let ?ks = "group_keys cats df"
  let ?inc = "included_groups cs" and ?exc = "excluded_groups cs"
  have keys: "map fst cs = ?ks" by (simp add: assms keys_classes_stats)
  have a: "distinct (map fst cs)" by (simp add: keys distinct_group_keys)
  have b: "\<forall>k r. r \<in> set (merge_keys cats df [k]) \<longleftrightarrow>
       r \<in> set df \<and> length k = length cats \<and> (\<forall>j < length cats. r ! nat (cats ! j) = k ! j)"
    using key_of_eq_iff by (auto simp: set_merge_keys)
  have b2: "\<forall>r \<in> set df. \<forall>r' \<in> set df.
       (\<exists>k. r \<in> set (merge_keys cats df [k]) \<and> r' \<in> set (merge_keys cats df [k])) \<longleftrightarrow>
       (\<forall>c \<in> set cats. r ! nat c = r' ! nat c)"
    using same_group_iff by blast
  have b3: "\<forall>k \<in> set (map fst cs). length k = length cats \<and> merge_keys cats df [k] \<noteq> []"
  proof
    fix k assume "k \<in> set (map fst cs)"
    then obtain r where r: "r \<in> set df" "key_of cats r = k"
      unfolding keys by (auto simp: set_group_keys)
    then have "r \<in> set (merge_keys cats df [k])" by (simp add: set_merge_keys)
    then have "merge_keys cats df [k] \<noteq> []" by auto
    moreover from r have "length k = length cats" by (auto simp: key_of_def)
    ultimately show "length k = length cats \<and> merge_keys cats df [k] \<noteq> []" by simp
  qed
  have c: "\<forall>r \<in> set df. \<exists>!k. k \<in> set (map fst cs) \<and> r \<in> set (merge_keys cats df [k])"
    unfolding keys by (auto simp: set_merge_keys set_group_keys)
  have d: "mset (concat (map (\<lambda>k. merge_keys cats df [k]) (map fst cs))) = mset df"
    unfolding keys by (simp add: mset_groups distinct_group_keys merge_keys_all set_group_keys)
  have e: "set ?inc \<inter> set ?exc = {}"
    unfolding assms by (rule included_excluded_disjoint)
  have f: "set ?inc \<union> set ?exc = set (map fst cs)"
    unfolding keys unfolding assms by (rule included_excluded_cover)
  have "mset (concat (map (\<lambda>k. merge_keys cats df [k]) ?inc)) = mset (merge_keys cats df ?inc)"
    unfolding assms by (rule mset_groups) (rule distinct_included_groups)
  moreover have "mset (merge_keys cats df ?inc) + mset (merge_keys cats df ?exc)
      = mset (filter (\<lambda>r. key_of cats r \<in> set ?inc \<or> key_of cats r \<in> set ?exc) df)"
    unfolding merge_keys_def by (rule mset_filter_split) (use e in auto)
  moreover have "filter (\<lambda>r. key_of cats r \<in> set ?inc \<or> key_of cats r \<in> set ?exc) df = df"
    by (rule filter_True) (use f keys in \<open>auto simp: set_group_keys simp flip: Un_iff\<close>)
  ultimately have g: "mset (concat (map (\<lambda>k. merge_keys cats df [k]) ?inc)) +
      mset (merge_keys cats df ?exc) = mset df"
    by simp
  from a b b2 b3 c d e f g show ?thesis by (intro conjI)
qed

text \<open>The dataset with the categorical columns 1 and 2 has the groups \<open>(0, 0)\<close>, \<open>(0, 1)\<close>
  and \<open>(1, 1)\<close>. Rows 0 and 1 agree in column 1 only and are in different groups; rows 0
  and 2 agree in both columns and are in one group.\<close>

theorem partition_total_disjoint_witness:
  "map fst (classes_stats example_sampler [1, 2] 0 (column_stack two_column_X two_column_y)) =
     [[0, 0], [0, 1], [1, 1]] \<and>
   included_groups (classes_stats example_sampler [1, 2] 0 (column_stack two_column_X two_column_y)) =
     [[0, 0], [0, 1]] \<and>
   excluded_groups (classes_stats example_sampler [1, 2] 0 (column_stack two_column_X two_column_y)) =
     [[1, 1]] \<and>
   merge_keys [1, 2] (column_stack two_column_X two_column_y) [[0, 0]] =
     [[1, 0, 0, 0], [3, 0, 0, 1], [5, 0, 0, 1]] \<and>
   merge_keys [1, 2] (column_stack two_column_X two_column_y) [[0, 1]] = [[2, 0, 1, 1]] \<and>
   distinct (map fst (classes_stats example_sampler [1, 2] 0 (column_stack two_column_X two_column_y))) \<and>
   (\<exists>!k. k \<in> set (map fst (classes_stats example_sampler [1, 2] 0
                  (column_stack two_column_X two_column_y))) \<and>
         [2, 0, 1, 1] \<in> set (merge_keys [1, 2] (column_stack two_column_X two_column_y) [k])) \<and>
   \<not> (\<exists>k. [1, 0, 0, 0] \<in> set (merge_keys [1, 2] (column_stack two_column_X two_column_y) [k]) \<and>
           [2, 0, 1, 1] \<in> set (merge_keys [1, 2] (column_stack two_column_X two_column_y) [k])) \<and>
   (\<exists>k. [1, 0, 0, 0] \<in> set (merge_keys [1, 2] (column_stack two_column_X two_column_y) [k]) \<and>
        [3, 0, 0, 1] \<in> set (merge_keys [1, 2] (column_stack two_column_X two_column_y) [k])) \<and>
   mset (concat (map (\<lambda>k. merge_keys [1, 2] (column_stack two_column_X two_column_y) [k])
       (map fst (classes_stats example_sampler [1, 2] 0 (column_stack two_column_X two_column_y))))) =
     mset (column_stack two_column_X two_column_y) \<and>
   mset (concat (map (\<lambda>k. merge_keys [1, 2] (column_stack two_column_X two_column_y) [k])
       (included_groups (classes_stats example_sampler [1, 2] 0
          (column_stack two_column_X two_column_y))))) +
     mset (merge_keys [1, 2] (column_stack two_column_X two_column_y)
       (excluded_groups (classes_stats example_sampler [1, 2] 0
          (column_stack two_column_X two_column_y)))) =
     mset (column_stack two_column_X two_column_y)"
proof -
  let ?df = "column_stack two_column_X two_column_y"
  let ?cs = "classes_stats example_sampler [1, 2] 0 ?df"
  have k: "map fst ?cs = [[0, 0], [0, 1], [1, 1]]" by code_simp
  have i: "included_groups ?cs = [[0, 0], [0, 1]]" by code_simp
  have e: "excluded_groups ?cs = [[1, 1]]" by code_simp
  have g0: "merge_keys [1, 2] ?df [[0, 0]] = [[1, 0, 0, 0], [3, 0, 0, 1], [5, 0, 0, 1]]"
    by code_simp
  have g1: "merge_keys [1, 2] ?df [[0, 1]] = [[2, 0, 1, 1]]" by code_simp
  have r0: "[1, 0, 0, 0] \<in> set ?df" and r1: "[2, 0, 1, 1] \<in> set ?df"
    and r2: "[3, 0, 0, 1] \<in> set ?df"
    by code_simp+
  have differ: "\<not> (\<forall>c \<in> set [1, 2]. [1, 0, 0, 0 :: rat] ! nat c = [2, 0, 1, 1] ! nat c)"
    by simp
  have agree: "\<forall>c \<in> set [1, 2]. [1, 0, 0, 0 :: rat] ! nat c = [3, 0, 0, 1] ! nat c"
    by simp
  note p = partition_total_disjoint [OF refl, of example_sampler "[1, 2]" 0 ?df]
  note p1 = p [THEN conjunct1]
  note p3 = p [THEN conjunct2, THEN conjunct2, THEN conjunct1]
  note p5 = p [THEN conjunct2, THEN conjunct2, THEN conjunct2, THEN conjunct2, THEN conjunct1]
  note p6 = p [THEN conjunct2, THEN conjunct2, THEN conjunct2, THEN conjunct2, THEN conjunct2,
    THEN conjunct1]
  note p9 = p [THEN conjunct2, THEN conjunct2, THEN conjunct2, THEN conjunct2, THEN conjunct2,
    THEN conjunct2, THEN conjunct2, THEN conjunct2]
  have u: "\<exists>!k. k \<in> set (map fst ?cs) \<and> [2, 0, 1, 1] \<in> set (merge_keys [1, 2] ?df [k])"
    by (rule p5 [THEN bspec, OF r1])
  have n: "\<not> (\<exists>k. [1, 0, 0, 0] \<in> set (merge_keys [1, 2] ?df [k]) \<and>
               [2, 0, 1, 1] \<in> set (merge_keys [1, 2] ?df [k]))"
    unfolding p3 [THEN bspec, OF r0, THEN bspec, OF r1] by (rule differ)
  have y: "\<exists>k. [1, 0, 0, 0] \<in> set (merge_keys [1, 2] ?df [k]) \<and>
            [3, 0, 0, 1] \<in> set (merge_keys [1, 2] ?df [k])"
    unfolding p3 [THEN bspec, OF r0, THEN bspec, OF r2] by (rule agree)
  from k i e g0 g1 p1 u n y p6 p9 show ?thesis by (intro conjI)
qed

section \<open>The weights (lines 25-27 and 140-146)\<close>

text \<open>The modified imbalance ratio of a label in a group: present for every label of the
  group other than the majority label, and positive.\<close>

lemma map_of_filter_label:
  "map_of (filter (\<lambda>(l, n). l \<noteq> maj) xs) lab = (if lab \<noteq> maj then map_of xs lab else None)"
  by (induction xs) auto

lemma map_of_modified_ratios:
  "map_of (snd (generate_classes_stats y maj thr k)) lab =
     (if lab \<in> set y \<and> lab \<noteq> maj
      then Some ((of_nat (count_list y maj) + 1) / (of_nat (count_list y lab) + 1))
      else None)"
  unfolding generate_classes_stats_def Let_def
  by (simp add: map_of_map map_of_filter_label map_of_Counter counter_get_Counter)

lemma modified_ratio_positive:
  assumes "map_of (snd (generate_classes_stats y maj thr k)) lab = Some v"
  shows "0 < v"
proof -
  from assms have "v = (of_nat (count_list y maj) + 1) / (of_nat (count_list y lab) + 1)"
    by (simp add: map_of_modified_ratios split: if_splits)
  moreover have "(0::rat) < of_nat (count_list y maj) + 1" "(0::rat) < of_nat (count_list y lab) + 1"
    by (simp_all add: add_pos_nonneg add.commute)
  ultimately show ?thesis by simp
qed

lemma imbalance_ratios_included:
  "imbalance_ratios (classes_stats s cats maj df) =
     map (\<lambda>k. snd (generate_classes_stats (map last (merge_keys cats df [k])) maj
                      (imbalance_ratio_threshold s) (k_neighbors s)))
         (included_groups (classes_stats s cats maj df))"
  by (simp add: imbalance_ratios_def included_groups_def classes_stats_def filter_map comp_def
      case_prod_beta)

lemma nansum_scale: "nansum (map (map_option (\<lambda>v. v / c)) col) = nansum col / c"
  unfolding nansum_def by (induction col) (auto simp: add_divide_distrib split: option.splits)

lemma nansum_nonneg: "\<forall>v. Some v \<in> set col \<longrightarrow> 0 < v \<Longrightarrow> 0 \<le> nansum col"
  unfolding nansum_def
proof (induction col)
  case Nil
  show ?case by simp
next
  case (Cons w col)
  then have "0 \<le> (\<Sum>w\<leftarrow>col. case w of None \<Rightarrow> 0 | Some v \<Rightarrow> v)" by simp
  moreover have "0 \<le> (case w of None \<Rightarrow> 0 | Some v \<Rightarrow> v)"
    using Cons.prems by (cases w) (auto simp: less_imp_le)
  ultimately show ?case by simp
qed

lemma nansum_positive:
  assumes "\<forall>v. Some v \<in> set col \<longrightarrow> 0 < v" and "Some v0 \<in> set col"
  shows "0 < nansum col"
  using assms
proof (induction col)
  case Nil
  then show ?case by simp
next
  case (Cons w col)
  have rest: "0 \<le> nansum col" using Cons.prems(1) by (intro nansum_nonneg) simp
  show ?case
  proof (cases "w = Some v0")
    case True
    with Cons.prems(1) have "0 < v0" by simp
    with True rest show ?thesis by (simp add: nansum_def)
  next
    case False
    with Cons.prems(2) have "Some v0 \<in> set col" by simp
    with Cons.IH Cons.prems(1) have "0 < nansum col" by simp
    moreover have "0 \<le> (case w of None \<Rightarrow> 0 | Some v \<Rightarrow> v)"
      using Cons.prems(1) by (cases w) (auto simp: less_imp_le)
    ultimately show ?thesis by (simp add: nansum_def)
  qed
qed

lemma length_label_weights: "length (label_weights irs lab) = length irs"
  by (simp add: label_weights_def)

lemma nth_label_weights:
  "i < length irs \<Longrightarrow> label_weights irs lab ! i =
     map_option (\<lambda>v. v / nansum (map (\<lambda>ratio. map_of ratio lab) irs)) (map_of (irs ! i) lab)"
  by (simp add: label_weights_def)

lemma label_weights_normalized:
  assumes "\<forall>ratio \<in> set irs. \<forall>v. map_of ratio lab = Some v \<longrightarrow> 0 < v"
    and "ratio0 \<in> set irs" and "map_of ratio0 lab = Some v0"
  shows "nansum (label_weights irs lab) = 1"
proof -
  let ?col = "map (\<lambda>ratio. map_of ratio lab) irs"
  have "\<forall>v. Some v \<in> set ?col \<longrightarrow> 0 < v" using assms(1) by auto
  moreover have "Some v0 \<in> set ?col" using assms(2,3) by force
  ultimately have "0 < nansum ?col" by (rule nansum_positive)
  moreover have "label_weights irs lab = map (map_option (\<lambda>v. v / nansum ?col)) ?col"
    by (simp add: label_weights_def Let_def)
  ultimately show ?thesis by (simp only: nansum_scale) simp
qed

lemma weights_column:
  assumes "lab \<in> set minority_labels"
  shows "map (\<lambda>weight. map_of weight lab) (weights irs minority_labels) =
         map Some (label_weights irs lab)"
proof -
  have m: "map_of (map (\<lambda>l. (l, f l)) minority_labels) lab = Some (f lab)" for f :: "rat \<Rightarrow> rat option"
    using assms by (simp add: map_of_map_restrict)
  from assms have ne: "minority_labels \<noteq> []" by auto
  have "map (\<lambda>weight. map_of weight lab) (weights irs minority_labels) =
        map (\<lambda>i. Some (label_weights irs lab ! i)) [0..<length irs]"
    using ne by (simp add: weights_def m comp_def)
  also have "\<dots> = map Some (map (\<lambda>i. label_weights irs lab ! i) [0..<length (label_weights irs lab)])"
    by (simp add: length_label_weights comp_def)
  also have "\<dots> = map Some (label_weights irs lab)"
    by (simp only: map_nth)
  finally show ?thesis .
qed

text \<open>
  Claim C5. For a minority label that at least one included group holds, the weights of
  the label over the included groups sum to 1 (NaN entries skipped, as the sum of the
  series does). The column of the label in the frame \<open>weights\<close> is this series. The weight
  of a group that holds the label is its modified imbalance ratio
  \<open>(majority_count + 1) / (label_count + 1)\<close> divided by the sum of these ratios over the
  included groups that hold the label; a group that does not hold the label has the weight
  NaN and adds nothing to the sum. The arithmetic is exact here, so the sum is 1 with
  tolerance 0.
\<close>

theorem weights_sum_to_one:
  assumes "cs = classes_stats s cats maj df" and "irs = imbalance_ratios cs"
    and "lab \<in> set minority_labels" and "lab \<noteq> maj"
    and "k \<in> set (included_groups cs)"
    and "lab \<in> set (map last (merge_keys cats df [k]))"
  shows "nansum (label_weights irs lab) = 1 \<and>
    map (\<lambda>weight. map_of weight lab) (weights irs minority_labels) =
      map Some (label_weights irs lab) \<and>
    length irs = length (included_groups cs) \<and>
    (\<forall>i < length irs.
       label_weights irs lab ! i =
         (let y = map last (merge_keys cats df [included_groups cs ! i])
          in if lab \<in> set y
             then Some ((of_nat (count_list y maj) + 1) / (of_nat (count_list y lab) + 1) /
                        nansum (map (\<lambda>ratio. map_of ratio lab) irs))
             else None))"
proof -
  let ?g = "\<lambda>k. snd (generate_classes_stats (map last (merge_keys cats df [k])) maj
                      (imbalance_ratio_threshold s) (k_neighbors s))"
  have irs: "irs = map ?g (included_groups cs)"
    unfolding assms(1,2) by (rule imbalance_ratios_included)
  have pos: "\<forall>ratio \<in> set irs. \<forall>v. map_of ratio lab = Some v \<longrightarrow> 0 < v"
    unfolding irs by (auto dest: modified_ratio_positive)
  have in0: "?g k \<in> set irs" using assms(5) by (simp add: irs)
  have "\<exists>v0. map_of (?g k) lab = Some v0"
    using assms(4,6) by (simp add: map_of_modified_ratios)
  then obtain v0 where v0: "map_of (?g k) lab = Some v0" ..
  have a: "nansum (label_weights irs lab) = 1"
    by (rule label_weights_normalized [OF pos in0 v0])
  have b: "map (\<lambda>weight. map_of weight lab) (weights irs minority_labels) =
      map Some (label_weights irs lab)"
    by (rule weights_column [OF assms(3)])
  have c: "length irs = length (included_groups cs)" by (simp add: irs)
  have d: "label_weights irs lab ! i =
         (let y = map last (merge_keys cats df [included_groups cs ! i])
          in if lab \<in> set y
             then Some ((of_nat (count_list y maj) + 1) / (of_nat (count_list y lab) + 1) /
                        nansum (map (\<lambda>ratio. map_of ratio lab) irs))
             else None)" if "i < length irs" for i
  proof -
    from that c have "irs ! i = ?g (included_groups cs ! i)" by (simp add: irs)
    with that assms(4) show ?thesis
      by (simp add: nth_label_weights map_of_modified_ratios Let_def)
  qed
  from a b c d show ?thesis by blast
qed

text \<open>In the example the two included groups have the weights 4/7 and 3/7 for label 1.
  In the three-class dataset with threshold 5 both groups are included, the second one
  without a row of label 1: the weights of label 1 are 1 and NaN.\<close>

theorem weights_sum_to_one_witness:
  "included_groups (classes_stats example_sampler [1] 0 (column_stack example_X example_y)) = [[0], [2]] \<and>
   label_weights (imbalance_ratios (classes_stats example_sampler [1] 0
       (column_stack example_X example_y))) 1 = [Some (4 / 7), Some (3 / 7)] \<and>
   nansum (label_weights (imbalance_ratios (classes_stats example_sampler [1] 0
       (column_stack example_X example_y))) 1) = 1 \<and>
   included_groups (classes_stats (three_class_sampler\<lparr>imbalance_ratio_threshold := 5\<rparr>) [1] 0
       (column_stack three_class_X three_class_y)) = [[0], [1]] \<and>
   label_weights (imbalance_ratios (classes_stats (three_class_sampler\<lparr>imbalance_ratio_threshold := 5\<rparr>)
       [1] 0 (column_stack three_class_X three_class_y))) 1 = [Some 1, None] \<and>
   nansum (label_weights (imbalance_ratios (classes_stats
       (three_class_sampler\<lparr>imbalance_ratio_threshold := 5\<rparr>) [1] 0
       (column_stack three_class_X three_class_y))) 1) = 1 \<and>
   map (\<lambda>weight. map_of weight 1)
     (weights (imbalance_ratios (classes_stats (three_class_sampler\<lparr>imbalance_ratio_threshold := 5\<rparr>)
        [1] 0 (column_stack three_class_X three_class_y))) [1, 2]) =
     map Some (label_weights (imbalance_ratios (classes_stats
        (three_class_sampler\<lparr>imbalance_ratio_threshold := 5\<rparr>) [1] 0
        (column_stack three_class_X three_class_y))) 1)"
proof -
  let ?df = "column_stack example_X example_y"
  let ?cs = "classes_stats example_sampler [1] 0 ?df"
  let ?s3 = "three_class_sampler\<lparr>imbalance_ratio_threshold := 5\<rparr>"
  let ?df3 = "column_stack three_class_X three_class_y"
  let ?cs3 = "classes_stats ?s3 [1] 0 ?df3"
  have i: "included_groups ?cs = [[0], [2]]" by code_simp
  have w: "label_weights (imbalance_ratios ?cs) 1 = [Some (4 / 7), Some (3 / 7)]" by code_simp
  have i3: "included_groups ?cs3 = [[0], [1]]" by code_simp
  have w3: "label_weights (imbalance_ratios ?cs3) 1 = [Some 1, None]" by code_simp
  have m: "(1::rat) \<in> set [1]" "(1::rat) \<noteq> 0" "(1::rat) \<in> set [1, 2]" by simp_all
  have k: "[0] \<in> set (included_groups ?cs)" unfolding i by simp
  have l: "1 \<in> set (map last (merge_keys [1] ?df [[0]]))" by code_simp
  have k3: "[0] \<in> set (included_groups ?cs3)" unfolding i3 by simp
  have l3: "1 \<in> set (map last (merge_keys [1] ?df3 [[0]]))" by code_simp
  from weights_sum_to_one [OF refl refl m(1) m(2) k l]
  have a: "nansum (label_weights (imbalance_ratios ?cs) 1) = 1" by blast
  from weights_sum_to_one [OF refl refl m(3) m(2) k3 l3]
  have b: "nansum (label_weights (imbalance_ratios ?cs3) 1) = 1"
    and c: "map (\<lambda>weight. map_of weight 1) (weights (imbalance_ratios ?cs3) [1, 2]) =
      map Some (label_weights (imbalance_ratios ?cs3) 1)"
    by blast+
  from i w a i3 w3 b c show ?thesis by blast
qed

end
